theory Spec2Isabelle
  imports Main "HOL-Library.Finite_Map"
begin

section \<open>Values of the policy and input documents\<close>

text \<open>
  The validator of \<^verbatim>\<open>scripts/validate_policy.py\<close> works on documents produced by
  \<^verbatim>\<open>json.load\<close>: \<^verbatim>\<open>None\<close>, booleans, integers, strings, lists and dictionaries with
  string keys. The source annotates them \<^verbatim>\<open>Dict[str, Any]\<close> and looks fields up
  dynamically, so the model keeps them dynamically typed. Numbers with a fraction or an
  exponent (Python floats) are outside the model. A string is a list of characters, one
  \<^typ>\<open>char\<close> standing for one character of the Python string.
\<close>

datatype json =
    JNull
  | JBool bool
  | JInt int
  | JStr string
  | JList "json list"
  | JObj "(string, json) fmap"

text \<open>The exceptions the operations used by the source raise on such values.\<close>

datatype py_error =
    AttributeError | TypeError | KeyError | IndexError | OverflowError | RecursionError

type_synonym 'a result = "py_error + 'a"

text \<open>
  Three functions of the Python runtime are called by the source and are not part of the
  repository; the model takes them as parameters:
  \<^item> \<open>re_compile p\<close> is the compilation of the regular expression \<open>p\<close> by the \<^verbatim>\<open>re\<close>
    module, with its three outcomes: \<open>ReError\<close> when it raises \<^verbatim>\<open>re.error\<close>;
    \<open>ReRaises e\<close> when it raises another exception \<open>e\<close>, as CPython does with
    \<^verbatim>\<open>OverflowError\<close> for a repetition count beyond its limit and with
    \<^verbatim>\<open>RecursionError\<close> for a pattern nested too deeply; and \<open>Compiled m\<close>, the matcher
    of the compiled pattern, where \<open>m s i\<close> tells whether the pattern matches the string
    \<open>s\<close> starting at position \<open>i\<close>. So \<^verbatim>\<open>re.match(p, s)\<close> finds a match when \<open>m s 0\<close>,
    and \<^verbatim>\<open>re.search(p, s)\<close> when \<open>m s i\<close> for some position \<open>i\<close>;
  \<^item> \<open>py_repr v\<close> is \<^verbatim>\<open>str(v)\<close> for a list or a dictionary;
  \<^item> \<open>exc_str e\<close> is \<^verbatim>\<open>str(e)\<close> for a caught exception.
\<close>

datatype re_outcome = ReError | ReRaises py_error | Compiled "string \<Rightarrow> nat \<Rightarrow> bool"

record pylib =
  re_compile :: "string \<Rightarrow> re_outcome"
  py_repr :: "json \<Rightarrow> string"
  exc_str :: "py_error \<Rightarrow> string"

section \<open>Python operations on the values\<close>

definition py_bind :: "'a result \<Rightarrow> ('a \<Rightarrow> 'b result) \<Rightarrow> 'b result" where
  "py_bind m f = (case m of Inl e \<Rightarrow> Inl e | Inr x \<Rightarrow> f x)"

text \<open>Truth value of a value in a condition (\<^verbatim>\<open>if v\<close>, \<^verbatim>\<open>not v\<close>, \<^verbatim>\<open>v and w\<close>).\<close>

fun py_truthy :: "json \<Rightarrow> bool" where
  "py_truthy JNull = False"
| "py_truthy (JBool b) = b"
| "py_truthy (JInt n) = (n \<noteq> 0)"
| "py_truthy (JStr s) = (s \<noteq> [])"
| "py_truthy (JList xs) = (xs \<noteq> [])"
| "py_truthy (JObj m) = (m \<noteq> fmempty)"

text \<open>\<^verbatim>\<open>d.get(k, default)\<close>: only a dictionary has the method.\<close>

fun py_get :: "json \<Rightarrow> string \<Rightarrow> json \<Rightarrow> json result" where
  "py_get (JObj m) k dflt = Inr (case fmlookup m k of None \<Rightarrow> dflt | Some v \<Rightarrow> v)"
| "py_get _ k dflt = Inl AttributeError"

text \<open>
  \<^verbatim>\<open>a == b\<close>. A boolean is the integer 0 or 1, lists are equal elementwise and
  dictionaries keywise; values of different kinds are unequal.
\<close>

primrec py_norm :: "json \<Rightarrow> json" where
  "py_norm JNull = JNull"
| "py_norm (JBool b) = JInt (if b then 1 else 0)"
| "py_norm (JInt n) = JInt n"
| "py_norm (JStr s) = JStr s"
| "py_norm (JList xs) = JList (map py_norm xs)"
| "py_norm (JObj m) = JObj (fmmap py_norm m)"

definition py_eq :: "json \<Rightarrow> json \<Rightarrow> bool" where
  "py_eq a b = (py_norm a = py_norm b)"

text \<open>The number a value stands for in a comparison, if it is one.\<close>

fun py_num :: "json \<Rightarrow> int option" where
  "py_num (JInt n) = Some n"
| "py_num (JBool b) = Some (if b then 1 else 0)"
| "py_num _ = None"

text \<open>Lexicographic order of two strings (\<^verbatim>\<open>s < t\<close> on \<^verbatim>\<open>str\<close>).\<close>

fun str_less :: "string \<Rightarrow> string \<Rightarrow> bool" where
  "str_less [] [] = False"
| "str_less [] (d # t) = True"
| "str_less (c # s) [] = False"
| "str_less (c # s) (d # t) =
     (if c = d then str_less s t else (of_char c :: nat) < of_char d)"

text \<open>
  \<^verbatim>\<open>a < b\<close>: numbers by value, strings and lists lexicographically (a list compares the
  first pair of unequal elements), anything else raises \<^verbatim>\<open>TypeError\<close>.
\<close>

fun py_less :: "json \<Rightarrow> json \<Rightarrow> bool result" where
  "py_less (JList xs) (JList ys) =
     (case xs of
        [] \<Rightarrow> Inr (ys \<noteq> [])
      | x # xs' \<Rightarrow>
          (case ys of
             [] \<Rightarrow> Inr False
           | y # ys' \<Rightarrow> if py_eq x y then py_less (JList xs') (JList ys') else py_less x y))"
| "py_less (JStr s) (JStr t) = Inr (str_less s t)"
| "py_less a b =
     (case (py_num a, py_num b) of
        (Some x, Some y) \<Rightarrow> Inr (x < y)
      | _ \<Rightarrow> Inl TypeError)"

text \<open>\<^verbatim>\<open>a > b\<close> on these values is \<^verbatim>\<open>b < a\<close>.\<close>

definition py_greater :: "json \<Rightarrow> json \<Rightarrow> bool result" where
  "py_greater a b = py_less b a"

text \<open>\<^verbatim>\<open>len(v)\<close>.\<close>

fun py_len :: "json \<Rightarrow> int result" where
  "py_len (JStr s) = Inr (int (length s))"
| "py_len (JList xs) = Inr (int (length xs))"
| "py_len (JObj m) = Inr (int (fcard (fmdom m)))"
| "py_len _ = Inl TypeError"

text \<open>\<^verbatim>\<open>str(v)\<close>, as an f-string renders a value.\<close>

fun show_nat :: "nat \<Rightarrow> string" where
  "show_nat n =
     (if n < 10 then [''0123456789'' ! n]
      else show_nat (n div 10) @ [''0123456789'' ! (n mod 10)])"

definition show_int :: "int \<Rightarrow> string" where
  "show_int i = (if i < 0 then CHR ''-'' # show_nat (nat (- i)) else show_nat (nat i))"

fun py_str :: "('z) pylib_scheme \<Rightarrow> json \<Rightarrow> string" where
  "py_str L JNull = ''None''"
| "py_str L (JBool b) = (if b then ''True'' else ''False'')"
| "py_str L (JInt n) = show_int n"
| "py_str L (JStr s) = s"
| "py_str L v = py_repr L v"

text \<open>\<^verbatim>\<open>t in s\<close> on strings: \<open>t\<close> occurs in \<open>s\<close>.\<close>

fun is_prefix :: "string \<Rightarrow> string \<Rightarrow> bool" where
  "is_prefix [] s = True"
| "is_prefix (c # t) [] = False"
| "is_prefix (c # t) (d # s) = (c = d \<and> is_prefix t s)"

fun is_substr :: "string \<Rightarrow> string \<Rightarrow> bool" where
  "is_substr t [] = (t = [])"
| "is_substr t (d # s) = (is_prefix t (d # s) \<or> is_substr t s)"

text \<open>
  \<^verbatim>\<open>x in c\<close>. A dictionary hashes \<open>x\<close> first (a list or a dictionary is unhashable) and
  has string keys only; a list compares its elements with \<open>x\<close>; a string accepts a
  string only; nothing else is a container.
\<close>

fun py_contains :: "json \<Rightarrow> json \<Rightarrow> bool result" where
  "py_contains (JList x) (JObj m) = Inl TypeError"
| "py_contains (JObj x) (JObj m) = Inl TypeError"
| "py_contains (JStr k) (JObj m) = Inr (fmlookup m k \<noteq> None)"
| "py_contains x (JObj m) = Inr False"
| "py_contains x (JList ys) = Inr (list_ex (\<lambda>y. py_eq y x) ys)"
| "py_contains (JStr t) (JStr s) = Inr (is_substr t s)"
| "py_contains x c = Inl TypeError"

text \<open>
  \<^verbatim>\<open>c[k]\<close>. A dictionary raises \<^verbatim>\<open>KeyError\<close> for a missing key; a list and a string
  take an integer index, negative ones counting from the end, and raise
  \<^verbatim>\<open>IndexError\<close> out of range.
\<close>

definition py_index :: "'a list \<Rightarrow> int \<Rightarrow> 'a result" where
  "py_index xs i =
     (if 0 \<le> i \<and> i < int (length xs) then Inr (xs ! nat i)
      else if i < 0 \<and> - int (length xs) \<le> i then Inr (xs ! nat (int (length xs) + i))
      else Inl IndexError)"

fun py_getitem :: "json \<Rightarrow> json \<Rightarrow> json result" where
  "py_getitem (JObj m) (JStr k) =
     (case fmlookup m k of None \<Rightarrow> Inl KeyError | Some v \<Rightarrow> Inr v)"
| "py_getitem (JObj m) (JList x) = Inl TypeError"
| "py_getitem (JObj m) (JObj x) = Inl TypeError"
| "py_getitem (JObj m) k = Inl KeyError"
| "py_getitem (JList xs) k =
     (case py_num k of None \<Rightarrow> Inl TypeError | Some i \<Rightarrow> py_index xs i)"
| "py_getitem (JStr s) k =
     (case py_num k of
        None \<Rightarrow> Inl TypeError
      | Some i \<Rightarrow> py_bind (py_index s i) (\<lambda>c. Inr (JStr [c])))"
| "py_getitem c k = Inl TypeError"

text \<open>Conditions: \<^verbatim>\<open>a and b\<close> evaluates \<open>b\<close> only when \<open>a\<close> is true.\<close>

definition truthy :: "json result \<Rightarrow> bool result" where
  "truthy m = py_bind m (\<lambda>v. Inr (py_truthy v))"

definition falsy :: "json result \<Rightarrow> bool result" where
  "falsy m = py_bind m (\<lambda>v. Inr (\<not> py_truthy v))"

definition equals :: "json result \<Rightarrow> json \<Rightarrow> bool result" where
  "equals m c = py_bind m (\<lambda>v. Inr (py_eq v c))"

definition py_and :: "bool result \<Rightarrow> bool result \<Rightarrow> bool result" where
  "py_and a b = py_bind a (\<lambda>x. if x then b else Inr False)"

text \<open>\<^verbatim>\<open>if cond: violations.append(msg)\<close>.\<close>

definition append_if :: "bool result \<Rightarrow> string \<Rightarrow> string list \<Rightarrow> string list result" where
  "append_if cond msg violations =
     py_bind cond (\<lambda>b. Inr (if b then violations @ [msg] else violations))"

section \<open>The ticket check\<close>

text \<open>
  \<^verbatim>\<open>_valid_ticket(ticket_id, pattern)\<close>. \<^verbatim>\<open>re.match\<close> rejects a pattern that is not a
  string, compiles the pattern, and then rejects a subject that is not a string. The
  source catches \<^verbatim>\<open>re.error\<close> only: any other exception of the compilation leaves the
  function.
\<close>

definition valid_ticket :: "('z) pylib_scheme \<Rightarrow> json \<Rightarrow> json \<Rightarrow> bool result" where
  "valid_ticket L ticket_id pattern =
     (if \<not> py_truthy ticket_id then Inr False
      else if \<not> py_truthy pattern then Inr True
      else (case pattern of
              JStr p \<Rightarrow>
                (case re_compile L p of
                   ReError \<Rightarrow> Inr False
                 | ReRaises e \<Rightarrow> Inl e
                 | Compiled m \<Rightarrow>
                     (case ticket_id of
                        JStr s \<Rightarrow> Inr (m s 0)
                      | _ \<Rightarrow> Inl TypeError))
            | _ \<Rightarrow> Inl TypeError))"

section \<open>The rule checks\<close>

text \<open>
  \<^verbatim>\<open>_check_rules(input_data, rules)\<close> runs fourteen statements one after the other, each
  of which may append one message to \<^verbatim>\<open>violations\<close>. Each statement is a function from
  the list so far to the list after it, or to the exception it raises.
\<close>

definition stmt_tests_passed :: "json \<Rightarrow> json \<Rightarrow> string list \<Rightarrow> string list result" where
  "stmt_tests_passed input_data rules violations =
     append_if
       (py_and (truthy (py_get rules ''tests_passed'' JNull))
               (falsy (py_bind (py_get input_data ''checks'' (JObj fmempty))
                         (\<lambda>checks. py_get checks ''tests'' JNull))))
       ''Rule#1: tests required but not passed'' violations"

definition stmt_artifact_signed :: "json \<Rightarrow> json \<Rightarrow> string list \<Rightarrow> string list result" where
  "stmt_artifact_signed input_data rules violations =
     append_if
       (py_and (truthy (py_get rules ''artifact_signed'' JNull))
               (falsy (py_get input_data ''artifact_signed'' JNull)))
       ''Rule#1: artifact must be signed'' violations"

definition stmt_release_controlled :: "json \<Rightarrow> json \<Rightarrow> string list \<Rightarrow> string list result" where
  "stmt_release_controlled input_data rules violations =
     append_if
       (py_and (truthy (py_get rules ''release_controlled'' JNull))
               (falsy (py_get input_data ''release_controlled'' JNull)))
       ''Rule#1: release must be controlled'' violations"

definition reviewers_msg :: "('z) pylib_scheme \<Rightarrow> json \<Rightarrow> int \<Rightarrow> string" where
  "reviewers_msg L min_reviewers approvers =
     ''Rule#1: at least '' @ py_str L min_reviewers @ '' approvers required (got ''
       @ py_str L (JInt approvers) @ '')''"

definition stmt_reviewers ::
  "('z) pylib_scheme \<Rightarrow> json \<Rightarrow> json \<Rightarrow> string list \<Rightarrow> string list result" where
  "stmt_reviewers L input_data rules violations =
     py_bind (py_get rules ''require_reviewers'' JNull) (\<lambda>require_reviewers.
       if py_truthy require_reviewers then
         py_bind (py_get rules ''min_reviewers'' (JInt 0)) (\<lambda>min_reviewers.
         py_bind (py_get input_data ''approvers'' (JList [])) (\<lambda>approvers_list.
         py_bind (py_len approvers_list) (\<lambda>approvers.
           append_if (py_less (JInt approvers) min_reviewers)
             (reviewers_msg L min_reviewers approvers) violations)))
       else Inr violations)"

definition stmt_shared_infra :: "json \<Rightarrow> json \<Rightarrow> string list \<Rightarrow> string list result" where
  "stmt_shared_infra input_data rules violations =
     append_if
       (py_and (equals (py_get rules ''shared_infra_except_core'' JNull) (JBool False))
               (equals (py_get input_data ''shared_infra'' JNull) (JBool True)))
       ''Rule#2: production cannot run on shared infra (except core)'' violations"

definition stmt_change_recorded :: "json \<Rightarrow> json \<Rightarrow> string list \<Rightarrow> string list result" where
  "stmt_change_recorded input_data rules violations =
     append_if
       (py_and (truthy (py_get rules ''change_recorded'' JNull))
               (falsy (py_get input_data ''change_recorded'' JNull)))
       ''Rule#3: change must be recorded'' violations"

definition ticket_msg :: "('z) pylib_scheme \<Rightarrow> json \<Rightarrow> string" where
  "ticket_msg L ticket_pattern =
     ''Rule#3: ticket id invalid/missing (pattern '' @ py_str L ticket_pattern @ '')''"

definition stmt_ticket ::
  "('z) pylib_scheme \<Rightarrow> json \<Rightarrow> json \<Rightarrow> string list \<Rightarrow> string list result" where
  "stmt_ticket L input_data rules violations =
     py_bind (py_get rules ''require_ticket'' JNull) (\<lambda>require_ticket.
       if py_truthy require_ticket then
         py_bind (py_get input_data ''ticket_id'' (JStr [])) (\<lambda>ticket_id.
         py_bind (py_get rules ''ticket_pattern'' (JStr [])) (\<lambda>ticket_pattern.
         py_bind (valid_ticket L ticket_id ticket_pattern) (\<lambda>ok.
           Inr (if \<not> ok then violations @ [ticket_msg L ticket_pattern]
                else violations))))
       else Inr violations)"

definition stmt_deployment_date :: "json \<Rightarrow> json \<Rightarrow> string list \<Rightarrow> string list result" where
  "stmt_deployment_date input_data rules violations =
     append_if
       (py_and (truthy (py_get rules ''deployment_date_agreed'' JNull))
               (falsy (py_get input_data ''deployment_date_agreed'' JNull)))
       ''Rule#4: deployment date not agreed'' violations"

definition wait_msg :: "('z) pylib_scheme \<Rightarrow> json \<Rightarrow> json \<Rightarrow> string" where
  "wait_msg L elapsed wait_timer =
     ''Rule#4: wait timer not elapsed ('' @ py_str L elapsed @ '' < ''
       @ py_str L wait_timer @ '')''"

definition stmt_wait_timer ::
  "('z) pylib_scheme \<Rightarrow> json \<Rightarrow> json \<Rightarrow> string list \<Rightarrow> string list result" where
  "stmt_wait_timer L input_data rules violations =
     py_bind (py_get rules ''wait_timer_seconds'' (JInt 0)) (\<lambda>wait_timer.
     py_bind (py_greater wait_timer (JInt 0)) (\<lambda>enabled.
       if enabled then
         py_bind (py_get input_data ''wait_elapsed_seconds'' (JInt 0)) (\<lambda>elapsed.
           append_if (py_less elapsed wait_timer) (wait_msg L elapsed wait_timer) violations)
       else Inr violations))"

definition stmt_signed_off :: "json \<Rightarrow> json \<Rightarrow> string list \<Rightarrow> string list result" where
  "stmt_signed_off input_data rules violations =
     append_if
       (py_and (py_and (truthy (py_get rules ''signed_off'' JNull))
                       (falsy (py_get input_data ''is_emergency'' JNull)))
               (falsy (py_get input_data ''signed_off'' JNull)))
       ''Rule#5: missing required sign-off'' violations"

definition stmt_emergency :: "json \<Rightarrow> json \<Rightarrow> string list \<Rightarrow> string list result" where
  "stmt_emergency input_data rules violations =
     append_if
       (py_and (truthy (py_get input_data ''is_emergency'' JNull))
               (equals (py_get rules ''retrospective_signoff'' JNull) (JBool False)))
       ''Rule#5: emergency path requires retrospective_signoff enabled'' violations"

definition stmt_components :: "json \<Rightarrow> json \<Rightarrow> string list \<Rightarrow> string list result" where
  "stmt_components input_data rules violations =
     append_if
       (py_and (truthy (py_get rules ''components_unchanged'' JNull))
               (truthy (py_get input_data ''components_changed_after_signoff'' JNull)))
       ''Rule#6: components changed after signoff; require new signoff'' violations"

definition stmt_rollback :: "json \<Rightarrow> json \<Rightarrow> string list \<Rightarrow> string list result" where
  "stmt_rollback input_data rules violations =
     append_if
       (py_and (truthy (py_get rules ''rollback_instructions_present'' JNull))
               (falsy (py_get input_data ''rollback_instructions_present'' JNull)))
       ''Rule#7: rollback instructions must be present'' violations"

definition guardrail_msg :: "('z) pylib_scheme \<Rightarrow> json \<Rightarrow> json \<Rightarrow> string" where
  "guardrail_msg L deployments_today max_deployments =
     ''Max deployments per day exceeded ('' @ py_str L deployments_today @ '' > ''
       @ py_str L max_deployments @ '')''"

definition stmt_guardrail ::
  "('z) pylib_scheme \<Rightarrow> json \<Rightarrow> json \<Rightarrow> string list \<Rightarrow> string list result" where
  "stmt_guardrail L input_data rules violations =
     py_bind (py_get rules ''max_deployments_per_day'' (JInt 0)) (\<lambda>max_deployments.
     py_bind (py_greater max_deployments (JInt 0)) (\<lambda>enabled.
       if enabled then
         py_bind (py_get input_data ''deployments_today'' (JInt 0)) (\<lambda>deployments_today.
           append_if (py_greater deployments_today max_deployments)
             (guardrail_msg L deployments_today max_deployments) violations)
       else Inr violations))"

definition check_rules :: "('z) pylib_scheme \<Rightarrow> json \<Rightarrow> json \<Rightarrow> string list result" where
  "check_rules L input_data rules =
     py_bind (stmt_tests_passed input_data rules []) (\<lambda>v1.
     py_bind (stmt_artifact_signed input_data rules v1) (\<lambda>v2.
     py_bind (stmt_release_controlled input_data rules v2) (\<lambda>v3.
     py_bind (stmt_reviewers L input_data rules v3) (\<lambda>v4.
     py_bind (stmt_shared_infra input_data rules v4) (\<lambda>v5.
     py_bind (stmt_change_recorded input_data rules v5) (\<lambda>v6.
     py_bind (stmt_ticket L input_data rules v6) (\<lambda>v7.
     py_bind (stmt_deployment_date input_data rules v7) (\<lambda>v8.
     py_bind (stmt_wait_timer L input_data rules v8) (\<lambda>v9.
     py_bind (stmt_signed_off input_data rules v9) (\<lambda>v10.
     py_bind (stmt_emergency input_data rules v10) (\<lambda>v11.
     py_bind (stmt_components input_data rules v11) (\<lambda>v12.
     py_bind (stmt_rollback input_data rules v12) (\<lambda>v13.
     stmt_guardrail L input_data rules v13)))))))))))))"

section \<open>The validator\<close>

text \<open>
  The dictionary \<^verbatim>\<open>validate_input\<close> returns: the normal one has a \<^verbatim>\<open>timestamp\<close> and
  no \<^verbatim>\<open>error\<close> key, the one built by the exception handler the converse.
\<close>

record validation_result =
  allowed :: bool
  violations :: "string list"
  input :: json
  timestamp :: "string option"
  error :: "bool option"

text \<open>\<^verbatim>\<open>self.data.get("policy", {}).get("environments", {})\<close>; \<open>data\<close> is \<^verbatim>\<open>self.data\<close>.\<close>

definition environments_of :: "json \<Rightarrow> json result" where
  "environments_of data =
     py_bind (py_get data ''policy'' (JObj fmempty)) (\<lambda>policy.
       py_get policy ''environments'' (JObj fmempty))"

text \<open>
  The body of the \<^verbatim>\<open>try\<close> block. The method \<^verbatim>\<open>self._check_rules\<close> it calls is the
  parameter \<open>check\<close>, so that a statement can say when the body does not call it.
\<close>

definition validate_body_with ::
  "(json \<Rightarrow> json \<Rightarrow> string list result) \<Rightarrow> ('z) pylib_scheme \<Rightarrow> json \<Rightarrow> json
     \<Rightarrow> validation_result result" where
  "validate_body_with check L data input_data =
     (let result = \<lparr>allowed = False, violations = [], input = input_data,
                     timestamp = Some ''2025-01-18T16:00:00Z'', error = None\<rparr>
      in
      py_bind (py_get input_data ''env'' (JStr [])) (\<lambda>env.
      py_bind (environments_of data) (\<lambda>environments.
      py_bind (py_contains env environments) (\<lambda>known.
        if known then
          py_bind (py_getitem data (JStr ''policy'')) (\<lambda>d1.
          py_bind (py_getitem d1 (JStr ''environments'')) (\<lambda>d2.
          py_bind (py_getitem d2 env) (\<lambda>d3.
          py_bind (py_getitem d3 (JStr ''rules'')) (\<lambda>rules.
          py_bind (check input_data rules) (\<lambda>vs.
            Inr (result\<lparr>violations := vs, allowed := (length vs = 0)\<rparr>))))))
        else
          Inr (result\<lparr>violations := [''Unknown environment: '' @ py_str L env]\<rparr>)))))"

text \<open>\<^verbatim>\<open>validate_input\<close>: the body, and the handler of \<^verbatim>\<open>except Exception\<close>.\<close>

definition validate_input_with ::
  "(json \<Rightarrow> json \<Rightarrow> string list result) \<Rightarrow> ('z) pylib_scheme \<Rightarrow> json \<Rightarrow> json
     \<Rightarrow> validation_result" where
  "validate_input_with check L data input_data =
     (case validate_body_with check L data input_data of
        Inr result \<Rightarrow> result
      | Inl e \<Rightarrow>
          \<lparr>allowed = False, violations = [''Validation error: '' @ exc_str L e],
           input = input_data, timestamp = None, error = Some True\<rparr>)"

definition validate_input ::
  "('z) pylib_scheme \<Rightarrow> json \<Rightarrow> json \<Rightarrow> validation_result" where
  "validate_input L data input_data = validate_input_with (check_rules L) L data input_data"

section \<open>The data model of the specification\<close>

text \<open>
  The specification types the fields of the two documents: every field is optional, a
  rule parameter is a boolean, a non-negative integer or (the ticket pattern) a string,
  and an input field is a boolean, an integer, a string, a sequence (the approvers) or
  the nested mapping \<^verbatim>\<open>checks\<close> with its boolean \<^verbatim>\<open>tests\<close>. The predicates below say
  that a document of the model is typed that way; keys the specification does not name
  are unconstrained.
\<close>

fun opt_bool :: "json option \<Rightarrow> bool" where
  "opt_bool None = True"
| "opt_bool (Some (JBool b)) = True"
| "opt_bool (Some v) = False"

fun opt_int :: "json option \<Rightarrow> bool" where
  "opt_int None = True"
| "opt_int (Some (JInt n)) = True"
| "opt_int (Some v) = False"

fun opt_nat :: "json option \<Rightarrow> bool" where
  "opt_nat None = True"
| "opt_nat (Some (JInt n)) = (0 \<le> n)"
| "opt_nat (Some v) = False"

fun opt_str :: "json option \<Rightarrow> bool" where
  "opt_str None = True"
| "opt_str (Some (JStr s)) = True"
| "opt_str (Some v) = False"

fun opt_list :: "json option \<Rightarrow> bool" where
  "opt_list None = True"
| "opt_list (Some (JList xs)) = True"
| "opt_list (Some v) = False"

fun opt_checks :: "json option \<Rightarrow> bool" where
  "opt_checks None = True"
| "opt_checks (Some (JObj c)) = opt_bool (fmlookup c ''tests'')"
| "opt_checks (Some v) = False"

definition rule_flags :: "string list" where
  "rule_flags =
     [''tests_passed'', ''artifact_signed'', ''release_controlled'', ''require_reviewers'',
      ''shared_infra_except_core'', ''change_recorded'', ''require_ticket'',
      ''deployment_date_agreed'', ''signed_off'', ''retrospective_signoff'',
      ''components_unchanged'', ''rollback_instructions_present'']"

definition rule_numbers :: "string list" where
  "rule_numbers = [''min_reviewers'', ''wait_timer_seconds'', ''max_deployments_per_day'']"

fun wt_rules :: "json \<Rightarrow> bool" where
  "wt_rules (JObj m) =
     (list_all (\<lambda>k. opt_bool (fmlookup m k)) rule_flags
      \<and> list_all (\<lambda>k. opt_nat (fmlookup m k)) rule_numbers
      \<and> opt_str (fmlookup m ''ticket_pattern''))"
| "wt_rules v = False"

text \<open>The sixteen rule parameters the specification recognises.\<close>

definition recognized_parameters :: "string list" where
  "recognized_parameters =
     [''tests_passed'', ''artifact_signed'', ''release_controlled'', ''require_reviewers'',
      ''min_reviewers'', ''shared_infra_except_core'', ''change_recorded'', ''require_ticket'',
      ''ticket_pattern'', ''deployment_date_agreed'', ''wait_timer_seconds'', ''signed_off'',
      ''retrospective_signoff'', ''components_unchanged'', ''rollback_instructions_present'',
      ''max_deployments_per_day'']"

definition input_flags :: "string list" where
  "input_flags =
     [''artifact_signed'', ''release_controlled'', ''shared_infra'', ''change_recorded'',
      ''deployment_date_agreed'', ''is_emergency'', ''signed_off'',
      ''components_changed_after_signoff'', ''rollback_instructions_present'']"

definition input_numbers :: "string list" where
  "input_numbers = [''wait_elapsed_seconds'', ''deployments_today'']"

fun wt_input :: "json \<Rightarrow> bool" where
  "wt_input (JObj i) =
     (opt_str (fmlookup i ''env'')
      \<and> opt_checks (fmlookup i ''checks'')
      \<and> list_all (\<lambda>k. opt_bool (fmlookup i k)) input_flags
      \<and> opt_list (fmlookup i ''approvers'')
      \<and> opt_str (fmlookup i ''ticket_id'')
      \<and> list_all (\<lambda>k. opt_int (fmlookup i k)) input_numbers)"
| "wt_input v = False"

text \<open>
  Reading a typed field the way the specification does: an absent boolean behaves as
  false, an absent number as 0, an absent string or sequence as empty.
\<close>

definition field :: "json \<Rightarrow> string \<Rightarrow> json option" where
  "field d k = (case d of JObj m \<Rightarrow> fmlookup m k | _ \<Rightarrow> None)"

definition flag :: "json \<Rightarrow> string \<Rightarrow> bool" where
  "flag d k = (field d k = Some (JBool True))"

definition explicitly_false :: "json \<Rightarrow> string \<Rightarrow> bool" where
  "explicitly_false d k = (field d k = Some (JBool False))"

definition number :: "json \<Rightarrow> string \<Rightarrow> int" where
  "number d k = (case field d k of Some (JInt n) \<Rightarrow> n | _ \<Rightarrow> 0)"

definition text_field :: "json \<Rightarrow> string \<Rightarrow> string" where
  "text_field d k = (case field d k of Some (JStr s) \<Rightarrow> s | _ \<Rightarrow> [])"

definition approvers_count :: "json \<Rightarrow> int" where
  "approvers_count d =
     (case field d ''approvers'' of Some (JList xs) \<Rightarrow> int (length xs) | _ \<Rightarrow> 0)"

definition checks_tests :: "json \<Rightarrow> bool" where
  "checks_tests d = (case field d ''checks'' of Some c \<Rightarrow> flag c ''tests'' | None \<Rightarrow> False)"

section \<open>The evaluator as the specification words it\<close>

text \<open>
  The ticket-validation sub-algorithm of the specification, on strings: an empty id is
  invalid, an empty pattern accepts every other id, and otherwise the id is valid when
  the pattern compiles and matches at position 0. A pattern that fails to compile, in
  whatever way, makes the id invalid: the sub-algorithm never throws.
\<close>

definition spec_valid_ticket :: "('z) pylib_scheme \<Rightarrow> string \<Rightarrow> string \<Rightarrow> bool" where
  "spec_valid_ticket L ticket pattern =
     (if ticket = [] then False
      else if pattern = [] then True
      else (case re_compile L pattern of Compiled m \<Rightarrow> m ticket 0 | _ \<Rightarrow> False))"

text \<open>
  The fourteen checks of the specification, in its order: each is the condition under
  which the check is triggered, paired with its message.
\<close>

definition spec_checks ::
  "('z) pylib_scheme \<Rightarrow> json \<Rightarrow> json \<Rightarrow> (bool \<times> string) list" where
  "spec_checks L rules inp =
     [(flag rules ''tests_passed'' \<and> \<not> checks_tests inp,
       ''Rule#1: tests required but not passed''),
      (flag rules ''artifact_signed'' \<and> \<not> flag inp ''artifact_signed'',
       ''Rule#1: artifact must be signed''),
      (flag rules ''release_controlled'' \<and> \<not> flag inp ''release_controlled'',
       ''Rule#1: release must be controlled''),
      (flag rules ''require_reviewers''
         \<and> approvers_count inp < number rules ''min_reviewers'',
       ''Rule#1: at least '' @ show_int (number rules ''min_reviewers'')
         @ '' approvers required (got '' @ show_int (approvers_count inp) @ '')''),
      (explicitly_false rules ''shared_infra_except_core'' \<and> flag inp ''shared_infra'',
       ''Rule#2: production cannot run on shared infra (except core)''),
      (flag rules ''change_recorded'' \<and> \<not> flag inp ''change_recorded'',
       ''Rule#3: change must be recorded''),
      (flag rules ''require_ticket''
         \<and> \<not> spec_valid_ticket L (text_field inp ''ticket_id'')
               (text_field rules ''ticket_pattern''),
       ''Rule#3: ticket id invalid/missing (pattern '' @ text_field rules ''ticket_pattern''
         @ '')''),
      (flag rules ''deployment_date_agreed'' \<and> \<not> flag inp ''deployment_date_agreed'',
       ''Rule#4: deployment date not agreed''),
      (0 < number rules ''wait_timer_seconds''
         \<and> number inp ''wait_elapsed_seconds'' < number rules ''wait_timer_seconds'',
       ''Rule#4: wait timer not elapsed ('' @ show_int (number inp ''wait_elapsed_seconds'')
         @ '' < '' @ show_int (number rules ''wait_timer_seconds'') @ '')''),
      (flag rules ''signed_off'' \<and> \<not> flag inp ''is_emergency'' \<and> \<not> flag inp ''signed_off'',
       ''Rule#5: missing required sign-off''),
      (flag inp ''is_emergency'' \<and> explicitly_false rules ''retrospective_signoff'',
       ''Rule#5: emergency path requires retrospective_signoff enabled''),
      (flag rules ''components_unchanged'' \<and> flag inp ''components_changed_after_signoff'',
       ''Rule#6: components changed after signoff; require new signoff''),
      (flag rules ''rollback_instructions_present''
         \<and> \<not> flag inp ''rollback_instructions_present'',
       ''Rule#7: rollback instructions must be present''),
      (0 < number rules ''max_deployments_per_day''
         \<and> number rules ''max_deployments_per_day'' < number inp ''deployments_today'',
       ''Max deployments per day exceeded ('' @ show_int (number inp ''deployments_today'')
         @ '' > '' @ show_int (number rules ''max_deployments_per_day'') @ '')'')]"

text \<open>The violations of the specification: the messages of the triggered checks, in order.\<close>

definition evaluate :: "('z) pylib_scheme \<Rightarrow> json \<Rightarrow> json \<Rightarrow> string list" where
  "evaluate L rules inp = map snd (filter fst (spec_checks L rules inp))"

text \<open>The compilation of a pattern raises an exception that is not \<^verbatim>\<open>re.error\<close>.\<close>

definition re_raises :: "('z) pylib_scheme \<Rightarrow> string \<Rightarrow> bool" where
  "re_raises L p = (case re_compile L p of ReRaises e \<Rightarrow> True | _ \<Rightarrow> False)"

text \<open>A message is produced when the evaluator returns a list that contains it.\<close>

definition produced :: "string \<Rightarrow> string list result \<Rightarrow> bool" where
  "produced msg r = (case r of Inl e \<Rightarrow> False | Inr vs \<Rightarrow> List.member vs msg)"

section \<open>Example documents\<close>

text \<open>
  An instance of the runtime for running the model on examples. A pattern is a literal
  text, which matches wherever it occurs, with two exceptions, which behave as in
  CPython: the pattern \<^verbatim>\<open>(\<close>, an unmatched parenthesis, raises \<^verbatim>\<open>re.error\<close>, and the
  pattern \<^verbatim>\<open>a{4294967296}\<close>, whose repetition count is beyond the limit, raises
  \<^verbatim>\<open>OverflowError\<close>. The examples render no list and no dictionary.
\<close>

definition overflow_pattern :: string where
  "overflow_pattern = ''a{4294967296}''"

definition literal_lib :: pylib where
  "literal_lib =
     \<lparr>re_compile = (\<lambda>p. if p = ''('' then ReError
                        else if p = overflow_pattern then ReRaises OverflowError
                        else Compiled (\<lambda>s i. is_prefix p (drop i s))),
      py_repr = (\<lambda>v. []),
      exc_str = (\<lambda>e. case e of AttributeError \<Rightarrow> ''AttributeError''
                        | TypeError \<Rightarrow> ''TypeError''
                        | KeyError \<Rightarrow> ''KeyError''
                        | IndexError \<Rightarrow> ''IndexError''
                        | OverflowError \<Rightarrow> ''the repetition number is too large''
                        | RecursionError \<Rightarrow> ''maximum recursion depth exceeded'')\<rparr>"

definition example_rules :: json where
  "example_rules =
     JObj (fmap_of_list
       [(''signed_off'', JBool True), (''retrospective_signoff'', JBool False),
        (''shared_infra_except_core'', JBool False), (''max_deployments_per_day'', JInt 3),
        (''require_reviewers'', JBool True), (''min_reviewers'', JInt 2),
        (''require_ticket'', JBool True), (''ticket_pattern'', JStr ''JIRA-'')])"

definition example_input :: json where
  "example_input =
     JObj (fmap_of_list
       [(''env'', JStr ''prod''), (''is_emergency'', JBool True), (''signed_off'', JBool False),
        (''shared_infra'', JBool True), (''deployments_today'', JInt 4),
        (''approvers'', JList [JStr ''a'']), (''ticket_id'', JStr ''TICKET-1'')])"

text \<open>A rule set whose ticket pattern does not compile, and an input for it.\<close>

definition malformed_rules :: json where
  "malformed_rules =
     JObj (fmap_of_list [(''require_ticket'', JBool True), (''ticket_pattern'', JStr ''('')])"

definition dev_input :: json where
  "dev_input = JObj (fmap_of_list [(''env'', JStr ''dev''), (''ticket_id'', JStr ''JIRA-1'')])"

definition example_environments :: "(string, json) fmap" where
  "example_environments =
     fmap_of_list
       [(''prod'', JObj (fmap_of_list [(''rules'', example_rules)])),
        (''dev'', JObj (fmap_of_list [(''rules'', malformed_rules)]))]"

definition example_policy :: json where
  "example_policy =
     JObj (fmap_of_list
       [(''policy'', JObj (fmap_of_list [(''environments'', JObj example_environments)]))])"

text \<open>An input that names an environment the policy does not have, and one that names none.\<close>

definition staging_input :: json where
  "staging_input = JObj (fmap_of_list [(''env'', JStr ''staging'')])"

definition unnamed_input :: "(string, json) fmap" where
  "unnamed_input = fmap_of_list [(''ticket_id'', JStr ''JIRA-1'')]"

text \<open>
  Typed documents on which the ticket check compiles the pattern \<^verbatim>\<open>a{4294967296}\<close>,
  while the rules before and after it are violated.
\<close>

definition overflow_rules :: json where
  "overflow_rules =
     JObj (fmap_of_list
       [(''shared_infra_except_core'', JBool False), (''require_ticket'', JBool True),
        (''ticket_pattern'', JStr overflow_pattern), (''retrospective_signoff'', JBool False),
        (''max_deployments_per_day'', JInt 3)])"

definition overflow_input :: json where
  "overflow_input =
     JObj (fmap_of_list
       [(''env'', JStr ''prod''), (''ticket_id'', JStr ''x''), (''shared_infra'', JBool True),
        (''is_emergency'', JBool True), (''deployments_today'', JInt 4)])"

definition overflow_environments :: "(string, json) fmap" where
  "overflow_environments =
     fmap_of_list [(''prod'', JObj (fmap_of_list [(''rules'', overflow_rules)]))]"

definition overflow_policy :: json where
  "overflow_policy =
     JObj (fmap_of_list
       [(''policy'', JObj (fmap_of_list [(''environments'', JObj overflow_environments)]))])"

section \<open>Basic facts\<close>

lemma py_bind_simps [simp]:
  "py_bind (Inl e) f = Inl e"
  "py_bind (Inr x) f = f x"
  by (simp_all add: py_bind_def)

lemma py_bind_Inr_iff: "(py_bind m f = Inr y) = (\<exists>x. m = Inr x \<and> f x = Inr y)"
  by (cases m) simp_all

section \<open>Typed fields\<close>

lemma opt_bool_cases: "opt_bool v \<Longrightarrow> v = None \<or> (\<exists>b. v = Some (JBool b))"
  by (erule opt_bool.elims) simp_all

lemma opt_int_cases: "opt_int v \<Longrightarrow> v = None \<or> (\<exists>n. v = Some (JInt n))"
  by (erule opt_int.elims) simp_all

lemma opt_nat_cases: "opt_nat v \<Longrightarrow> v = None \<or> (\<exists>n. v = Some (JInt n))"
  by (erule opt_nat.elims) simp_all

lemma opt_str_cases: "opt_str v \<Longrightarrow> v = None \<or> (\<exists>s. v = Some (JStr s))"
  by (erule opt_str.elims) simp_all

lemma opt_list_cases: "opt_list v \<Longrightarrow> v = None \<or> (\<exists>xs. v = Some (JList xs))"
  by (erule opt_list.elims) simp_all

lemma truthy_flag:
  "opt_bool (fmlookup m k) \<Longrightarrow> truthy (py_get (JObj m) k JNull) = Inr (flag (JObj m) k)"
  by (auto dest!: opt_bool_cases simp: truthy_def flag_def field_def)

lemma falsy_flag:
  "opt_bool (fmlookup m k) \<Longrightarrow> falsy (py_get (JObj m) k JNull) = Inr (\<not> flag (JObj m) k)"
  by (auto dest!: opt_bool_cases simp: falsy_def flag_def field_def)

lemma equals_False_flag:
  "opt_bool (fmlookup m k) \<Longrightarrow>
     equals (py_get (JObj m) k JNull) (JBool False) = Inr (explicitly_false (JObj m) k)"
  by (auto dest!: opt_bool_cases simp: equals_def explicitly_false_def field_def py_eq_def)

lemma equals_True_flag:
  "opt_bool (fmlookup m k) \<Longrightarrow>
     equals (py_get (JObj m) k JNull) (JBool True) = Inr (flag (JObj m) k)"
  by (auto dest!: opt_bool_cases simp: equals_def flag_def field_def py_eq_def
        split: if_splits)

lemma get_flag:
  "opt_bool (fmlookup m k) \<Longrightarrow>
     \<exists>v. py_get (JObj m) k JNull = Inr v \<and> py_truthy v = flag (JObj m) k"
  by (auto dest!: opt_bool_cases simp: flag_def field_def)

lemma get_number:
  "opt_int (fmlookup m k) \<Longrightarrow> py_get (JObj m) k (JInt 0) = Inr (JInt (number (JObj m) k))"
  by (auto dest!: opt_int_cases simp: number_def field_def)

lemma opt_nat_int: "opt_nat v \<Longrightarrow> opt_int v"
  by (auto dest!: opt_nat_cases)

lemma get_text:
  "opt_str (fmlookup m k) \<Longrightarrow> py_get (JObj m) k (JStr []) = Inr (JStr (text_field (JObj m) k))"
  by (auto dest!: opt_str_cases simp: text_field_def field_def)

lemma py_and_Inr [simp]: "py_and (Inr a) (Inr b) = Inr (a \<and> b)"
  by (simp add: py_and_def)

lemma append_if_Inr [simp]:
  "append_if (Inr b) msg vs = Inr (vs @ (if b then [msg] else []))"
  by (simp add: append_if_def)

lemma py_less_int [simp]: "py_less (JInt a) (JInt b) = Inr (a < b)"
  by simp

lemma py_greater_int [simp]: "py_greater (JInt a) (JInt b) = Inr (b < a)"
  by (simp add: py_greater_def)

lemma valid_ticket_str:
  "\<not> re_raises L p \<Longrightarrow> valid_ticket L (JStr s) (JStr p) = Inr (spec_valid_ticket L s p)"
  by (simp add: valid_ticket_def spec_valid_ticket_def re_raises_def split: re_outcome.splits)

lemma valid_ticket_raises:
  "s \<noteq> [] \<Longrightarrow> p \<noteq> [] \<Longrightarrow> re_compile L p = ReRaises e \<Longrightarrow>
     valid_ticket L (JStr s) (JStr p) = Inl e"
  by (simp add: valid_ticket_def)

lemma wt_rules_flag:
  "wt_rules (JObj m) \<Longrightarrow> k \<in> set rule_flags \<Longrightarrow> opt_bool (fmlookup m k)"
  by (simp add: list_all_iff)

lemma wt_rules_number:
  "wt_rules (JObj m) \<Longrightarrow> k \<in> set rule_numbers \<Longrightarrow> opt_int (fmlookup m k)"
  by (simp add: list_all_iff opt_nat_int)

lemma wt_input_flag:
  "wt_input (JObj i) \<Longrightarrow> k \<in> set input_flags \<Longrightarrow> opt_bool (fmlookup i k)"
  by (simp add: list_all_iff)

lemma wt_input_number:
  "wt_input (JObj i) \<Longrightarrow> k \<in> set input_numbers \<Longrightarrow> opt_int (fmlookup i k)"
  by (simp add: list_all_iff)

lemma falsy_checks_tests:
  "opt_checks (fmlookup i ''checks'') \<Longrightarrow>
     falsy (py_bind (py_get (JObj i) ''checks'' (JObj fmempty))
              (\<lambda>checks. py_get checks ''tests'' JNull))
       = Inr (\<not> checks_tests (JObj i))"
  apply (erule opt_checks.elims)
  apply (auto simp: falsy_def checks_tests_def field_def flag_def dest!: opt_bool_cases)
  done

lemma approvers_len:
  "opt_list (fmlookup i ''approvers'') \<Longrightarrow>
     py_bind (py_get (JObj i) ''approvers'' (JList [])) py_len
       = Inr (approvers_count (JObj i))"
  by (auto dest!: opt_list_cases simp: approvers_count_def field_def)

section \<open>The statements on typed documents\<close>

lemmas wt_keys = rule_flags_def rule_numbers_def input_flags_def input_numbers_def

lemma stmt_tests_passed_wt:
  assumes "wt_rules (JObj m)" "wt_input (JObj i)"
  shows "stmt_tests_passed (JObj i) (JObj m) vs
           = Inr (vs @ (if flag (JObj m) ''tests_passed'' \<and> \<not> checks_tests (JObj i)
                        then [''Rule#1: tests required but not passed''] else []))"
  using assms
  by (simp add: stmt_tests_passed_def wt_keys truthy_flag falsy_checks_tests del: py_get.simps)

lemma stmt_artifact_signed_wt:
  assumes "wt_rules (JObj m)" "wt_input (JObj i)"
  shows "stmt_artifact_signed (JObj i) (JObj m) vs
           = Inr (vs @ (if flag (JObj m) ''artifact_signed'' \<and> \<not> flag (JObj i) ''artifact_signed''
                        then [''Rule#1: artifact must be signed''] else []))"
  using assms
  by (simp add: stmt_artifact_signed_def wt_keys truthy_flag falsy_flag del: py_get.simps)

lemma stmt_reviewers_wt:
  assumes "wt_rules (JObj m)" "wt_input (JObj i)"
  shows "stmt_reviewers L (JObj i) (JObj m) vs
           = Inr (vs @ (if flag (JObj m) ''require_reviewers''
                           \<and> approvers_count (JObj i) < number (JObj m) ''min_reviewers''
                        then [''Rule#1: at least '' @ show_int (number (JObj m) ''min_reviewers'')
                                @ '' approvers required (got ''
                                @ show_int (approvers_count (JObj i)) @ '')'']
                        else []))"
proof -
  from assms(1) obtain v where v: "py_get (JObj m) ''require_reviewers'' JNull = Inr v"
    "py_truthy v = flag (JObj m) ''require_reviewers''"
    using get_flag [of m "''require_reviewers''"] by (auto simp: wt_keys)
  from assms(1) have n: "py_get (JObj m) ''min_reviewers'' (JInt 0)
      = Inr (JInt (number (JObj m) ''min_reviewers''))"
    by (intro get_number opt_nat_int) (simp add: wt_keys)
  from assms(2) have a: "py_bind (py_get (JObj i) ''approvers'' (JList [])) py_len
       = Inr (approvers_count (JObj i))"
    by (intro approvers_len) simp
  obtain al where al: "py_get (JObj i) ''approvers'' (JList []) = Inr al"
    "py_len al = Inr (approvers_count (JObj i))"
    using a by (auto simp: py_bind_Inr_iff)
  show ?thesis
    unfolding stmt_reviewers_def v(1) n al(1)
    by (simp add: v(2) al(2) reviewers_msg_def)
qed


lemma stmt_release_controlled_wt:
  assumes "wt_rules (JObj m)" "wt_input (JObj i)"
  shows "stmt_release_controlled (JObj i) (JObj m) vs
           = Inr (vs @ (if flag (JObj m) ''release_controlled'' \<and> \<not> flag (JObj i) ''release_controlled''
                        then [''Rule#1: release must be controlled''] else []))"
  using assms
  by (simp add: stmt_release_controlled_def wt_keys truthy_flag falsy_flag equals_False_flag equals_True_flag
        del: py_get.simps)

lemma stmt_shared_infra_wt:
  assumes "wt_rules (JObj m)" "wt_input (JObj i)"
  shows "stmt_shared_infra (JObj i) (JObj m) vs
           = Inr (vs @ (if explicitly_false (JObj m) ''shared_infra_except_core'' \<and> flag (JObj i) ''shared_infra''
                        then [''Rule#2: production cannot run on shared infra (except core)''] else []))"
  using assms
  by (simp add: stmt_shared_infra_def wt_keys truthy_flag falsy_flag equals_False_flag equals_True_flag
        del: py_get.simps)

lemma stmt_change_recorded_wt:
  assumes "wt_rules (JObj m)" "wt_input (JObj i)"
  shows "stmt_change_recorded (JObj i) (JObj m) vs
           = Inr (vs @ (if flag (JObj m) ''change_recorded'' \<and> \<not> flag (JObj i) ''change_recorded''
                        then [''Rule#3: change must be recorded''] else []))"
  using assms
  by (simp add: stmt_change_recorded_def wt_keys truthy_flag falsy_flag equals_False_flag equals_True_flag
        del: py_get.simps)

lemma stmt_deployment_date_wt:
  assumes "wt_rules (JObj m)" "wt_input (JObj i)"
  shows "stmt_deployment_date (JObj i) (JObj m) vs
           = Inr (vs @ (if flag (JObj m) ''deployment_date_agreed'' \<and> \<not> flag (JObj i) ''deployment_date_agreed''
                        then [''Rule#4: deployment date not agreed''] else []))"
  using assms
  by (simp add: stmt_deployment_date_def wt_keys truthy_flag falsy_flag equals_False_flag equals_True_flag
        del: py_get.simps)

lemma stmt_signed_off_wt:
  assumes "wt_rules (JObj m)" "wt_input (JObj i)"
  shows "stmt_signed_off (JObj i) (JObj m) vs
           = Inr (vs @ (if flag (JObj m) ''signed_off'' \<and> \<not> flag (JObj i) ''is_emergency'' \<and> \<not> flag (JObj i) ''signed_off''
                        then [''Rule#5: missing required sign-off''] else []))"
  using assms
  by (simp add: stmt_signed_off_def wt_keys truthy_flag falsy_flag equals_False_flag equals_True_flag
        del: py_get.simps)

lemma stmt_emergency_wt:
  assumes "wt_rules (JObj m)" "wt_input (JObj i)"
  shows "stmt_emergency (JObj i) (JObj m) vs
           = Inr (vs @ (if flag (JObj i) ''is_emergency'' \<and> explicitly_false (JObj m) ''retrospective_signoff''
                        then [''Rule#5: emergency path requires retrospective_signoff enabled''] else []))"
  using assms
  by (simp add: stmt_emergency_def wt_keys truthy_flag falsy_flag equals_False_flag equals_True_flag
        del: py_get.simps)

lemma stmt_components_wt:
  assumes "wt_rules (JObj m)" "wt_input (JObj i)"
  shows "stmt_components (JObj i) (JObj m) vs
           = Inr (vs @ (if flag (JObj m) ''components_unchanged'' \<and> flag (JObj i) ''components_changed_after_signoff''
                        then [''Rule#6: components changed after signoff; require new signoff''] else []))"
  using assms
  by (simp add: stmt_components_def wt_keys truthy_flag falsy_flag equals_False_flag equals_True_flag
        del: py_get.simps)

lemma stmt_rollback_wt:
  assumes "wt_rules (JObj m)" "wt_input (JObj i)"
  shows "stmt_rollback (JObj i) (JObj m) vs
           = Inr (vs @ (if flag (JObj m) ''rollback_instructions_present'' \<and> \<not> flag (JObj i) ''rollback_instructions_present''
                        then [''Rule#7: rollback instructions must be present''] else []))"
  using assms
  by (simp add: stmt_rollback_def wt_keys truthy_flag falsy_flag equals_False_flag equals_True_flag
        del: py_get.simps)

lemma stmt_ticket_wt:
  assumes "wt_rules (JObj m)" "wt_input (JObj i)"
    and "\<not> re_raises L (text_field (JObj m) ''ticket_pattern'')"
  shows "stmt_ticket L (JObj i) (JObj m) vs
           = Inr (vs @ (if flag (JObj m) ''require_ticket''
                           \<and> \<not> spec_valid_ticket L (text_field (JObj i) ''ticket_id'')
                                 (text_field (JObj m) ''ticket_pattern'')
                        then [''Rule#3: ticket id invalid/missing (pattern ''
                                @ text_field (JObj m) ''ticket_pattern'' @ '')'']
                        else []))"
proof -
  from assms(1) obtain v where v: "py_get (JObj m) ''require_ticket'' JNull = Inr v"
    "py_truthy v = flag (JObj m) ''require_ticket''"
    using get_flag [of m "''require_ticket''"] by (auto simp: wt_keys)
  from assms(1) have p: "py_get (JObj m) ''ticket_pattern'' (JStr [])
      = Inr (JStr (text_field (JObj m) ''ticket_pattern''))"
    by (intro get_text) simp
  from assms(2) have t: "py_get (JObj i) ''ticket_id'' (JStr [])
      = Inr (JStr (text_field (JObj i) ''ticket_id''))"
    by (intro get_text) simp
  show ?thesis
    unfolding stmt_ticket_def v(1) p t
    by (simp add: v(2) valid_ticket_str [OF assms(3)] ticket_msg_def)
qed

lemma stmt_wait_timer_wt:
  assumes "wt_rules (JObj m)" "wt_input (JObj i)"
  shows "stmt_wait_timer L (JObj i) (JObj m) vs
           = Inr (vs @ (if 0 < number (JObj m) ''wait_timer_seconds''
                           \<and> number (JObj i) ''wait_elapsed_seconds''
                               < number (JObj m) ''wait_timer_seconds''
                        then [''Rule#4: wait timer not elapsed (''
                                @ show_int (number (JObj i) ''wait_elapsed_seconds'') @ '' < ''
                                @ show_int (number (JObj m) ''wait_timer_seconds'') @ '')'']
                        else []))"
proof -
  from assms(1) have w: "py_get (JObj m) ''wait_timer_seconds'' (JInt 0)
      = Inr (JInt (number (JObj m) ''wait_timer_seconds''))"
    by (intro get_number opt_nat_int) (simp add: wt_keys)
  from assms(2) have e: "py_get (JObj i) ''wait_elapsed_seconds'' (JInt 0)
      = Inr (JInt (number (JObj i) ''wait_elapsed_seconds''))"
    by (intro get_number) (simp add: wt_keys)
  show ?thesis
    unfolding stmt_wait_timer_def w e
    by (simp add: wait_msg_def)
qed

lemma stmt_guardrail_wt:
  assumes "wt_rules (JObj m)" "wt_input (JObj i)"
  shows "stmt_guardrail L (JObj i) (JObj m) vs
           = Inr (vs @ (if 0 < number (JObj m) ''max_deployments_per_day''
                           \<and> number (JObj m) ''max_deployments_per_day''
                               < number (JObj i) ''deployments_today''
                        then [''Max deployments per day exceeded (''
                                @ show_int (number (JObj i) ''deployments_today'') @ '' > ''
                                @ show_int (number (JObj m) ''max_deployments_per_day'') @ '')'']
                        else []))"
proof -
  from assms(1) have w: "py_get (JObj m) ''max_deployments_per_day'' (JInt 0)
      = Inr (JInt (number (JObj m) ''max_deployments_per_day''))"
    by (intro get_number opt_nat_int) (simp add: wt_keys)
  from assms(2) have e: "py_get (JObj i) ''deployments_today'' (JInt 0)
      = Inr (JInt (number (JObj i) ''deployments_today''))"
    by (intro get_number) (simp add: wt_keys)
  show ?thesis
    unfolding stmt_guardrail_def w e
    by (simp add: guardrail_msg_def)
qed

lemmas stmt_wt =
  stmt_tests_passed_wt stmt_artifact_signed_wt stmt_release_controlled_wt stmt_reviewers_wt
  stmt_shared_infra_wt stmt_change_recorded_wt stmt_deployment_date_wt
  stmt_wait_timer_wt stmt_signed_off_wt stmt_emergency_wt stmt_components_wt
  stmt_rollback_wt stmt_guardrail_wt

lemma wt_rules_obj: "wt_rules rules \<Longrightarrow> \<exists>m. rules = JObj m"
  by (cases rules) simp_all

lemma wt_input_obj: "wt_input inp \<Longrightarrow> \<exists>i. inp = JObj i"
  by (cases inp) simp_all

lemma filter_append_if:
  "map snd (filter fst ((c, msg) # ps)) = (if c then [msg] else []) @ map snd (filter fst ps)"
  by simp

text \<open>
  On typed documents the source returns the violations of the specification, provided
  the compilation of the ticket pattern raises nothing but \<^verbatim>\<open>re.error\<close>.
\<close>

lemma check_rules_wt:
  assumes "wt_rules rules" "wt_input inp"
    and "\<not> re_raises L (text_field rules ''ticket_pattern'')"
  shows "check_rules L inp rules = Inr (evaluate L rules inp)"
proof -
  from assms obtain m i where eq: "rules = JObj m" "inp = JObj i"
    using wt_rules_obj wt_input_obj by blast
  have m: "wt_rules (JObj m)" and i: "wt_input (JObj i)"
    and r: "\<not> re_raises L (text_field (JObj m) ''ticket_pattern'')"
    using assms eq by simp_all
  show ?thesis
    unfolding eq check_rules_def evaluate_def spec_checks_def filter_append_if
      stmt_wt [OF m i] stmt_ticket_wt [OF m i r] py_bind_simps
    by simp
qed

section \<open>Membership in the violations of the specification\<close>

lemma mem_evaluate:
  "x \<in> set (evaluate L rules inp) = (\<exists>p \<in> set (spec_checks L rules inp). fst p \<and> snd p = x)"
  by (auto simp: evaluate_def)

lemma ex_evaluate:
  "list_ex P (evaluate L rules inp) = (\<exists>p \<in> set (spec_checks L rules inp). fst p \<and> P (snd p))"
  unfolding evaluate_def list_ex_iff by force

lemma mem_sign_off:
  "''Rule#5: missing required sign-off'' \<in> set (evaluate L rules inp)
     = (flag rules ''signed_off'' \<and> \<not> flag inp ''is_emergency'' \<and> \<not> flag inp ''signed_off'')"
  by (simp add: mem_evaluate spec_checks_def)

lemma mem_emergency:
  "''Rule#5: emergency path requires retrospective_signoff enabled'' \<in> set (evaluate L rules inp)
     = (flag inp ''is_emergency'' \<and> explicitly_false rules ''retrospective_signoff'')"
  by (simp add: mem_evaluate spec_checks_def)

lemma mem_shared_infra:
  "''Rule#2: production cannot run on shared infra (except core)'' \<in> set (evaluate L rules inp)
     = (explicitly_false rules ''shared_infra_except_core'' \<and> flag inp ''shared_infra'')"
  by (simp add: mem_evaluate spec_checks_def)

lemma mem_guardrail:
  "(''Max deployments per day exceeded ('' @ show_int (number inp ''deployments_today'')
       @ '' > '' @ show_int (number rules ''max_deployments_per_day'') @ '')'')
      \<in> set (evaluate L rules inp)
     = (0 < number rules ''max_deployments_per_day''
        \<and> number rules ''max_deployments_per_day'' < number inp ''deployments_today'')"
  by (simp add: mem_evaluate spec_checks_def)

lemma ex_guardrail:
  "list_ex (is_prefix ''Max deployments per day exceeded'') (evaluate L rules inp)
     = (0 < number rules ''max_deployments_per_day''
        \<and> number rules ''max_deployments_per_day'' < number inp ''deployments_today'')"
  by (simp add: ex_evaluate spec_checks_def)

section \<open>The result of the validator\<close>

lemma validate_body_allowed:
  assumes "validate_body_with check L data input_data = Inr r"
  shows "allowed r = (violations r = [])"
  using assms
  by (auto simp: validate_body_with_def Let_def py_bind_Inr_iff split: if_splits)

text \<open>
  Claim C1. Whatever the policy document and the input event are, the result of
  \<open>validate_input\<close> is allowed exactly when its list of violations is empty. This
  covers the three ways the function returns: the environment is found and the rules are
  checked, the environment is not found, and the exception handler builds the result.
\<close>

theorem allowed_iff_no_violations:
  "allowed (validate_input L data input_data)
     = (violations (validate_input L data input_data) = [])"
  by (cases "validate_body_with (check_rules L) L data input_data")
     (simp_all add: validate_input_def validate_input_with_def validate_body_allowed)

theorem allowed_iff_no_violations_witness:
  "allowed (validate_input literal_lib example_policy (JList []))
     = (violations (validate_input literal_lib example_policy (JList [])) = [])
   \<and> violations (validate_input literal_lib example_policy (JList []))
       = [''Validation error: AttributeError'']"
  using allowed_iff_no_violations [of literal_lib example_policy "JList []"]
  by (simp add: validate_input_def validate_input_with_def validate_body_with_def
        literal_lib_def)

section \<open>A rule set without parameters\<close>

lemmas stmt_defs =
  stmt_tests_passed_def stmt_artifact_signed_def stmt_release_controlled_def
  stmt_reviewers_def stmt_shared_infra_def stmt_change_recorded_def stmt_ticket_def
  stmt_deployment_date_def stmt_wait_timer_def stmt_signed_off_def stmt_emergency_def
  stmt_components_def stmt_rollback_def stmt_guardrail_def

lemma py_and_False [simp]: "py_and (Inr False) b = Inr False"
  by (simp add: py_and_def)

lemma py_and_same_False [simp]: "py_and (truthy (Inr v)) (Inr False) = Inr False"
  by (simp add: py_and_def truthy_def)

lemma absent_truthy [simp]:
  "fmlookup m k = None \<Longrightarrow> truthy (py_get (JObj m) k JNull) = Inr False"
  by (simp add: truthy_def)

lemma absent_equals [simp]:
  "fmlookup m k = None \<Longrightarrow> equals (py_get (JObj m) k JNull) (JBool b) = Inr False"
  by (simp add: equals_def py_eq_def)

text \<open>
  Claim C8. A rule-parameter set in which none of the sixteen recognised parameters is
  present yields the empty list of violations on every input event, whatever the types
  of the input's fields are: no rule denies by default.
\<close>

theorem absent_parameters_no_violations:
  assumes "\<forall>k \<in> set recognized_parameters. fmlookup m k = None"
  shows "check_rules L (JObj i) (JObj m) = Inr []"
proof -
  have a: "fmlookup m ''tests_passed'' = None" "fmlookup m ''artifact_signed'' = None"
    "fmlookup m ''release_controlled'' = None" "fmlookup m ''require_reviewers'' = None"
    "fmlookup m ''min_reviewers'' = None" "fmlookup m ''shared_infra_except_core'' = None"
    "fmlookup m ''change_recorded'' = None" "fmlookup m ''require_ticket'' = None"
    "fmlookup m ''ticket_pattern'' = None" "fmlookup m ''deployment_date_agreed'' = None"
    "fmlookup m ''wait_timer_seconds'' = None" "fmlookup m ''signed_off'' = None"
    "fmlookup m ''retrospective_signoff'' = None" "fmlookup m ''components_unchanged'' = None"
    "fmlookup m ''rollback_instructions_present'' = None"
    "fmlookup m ''max_deployments_per_day'' = None"
    using assms by (simp_all add: recognized_parameters_def)
  have s: "stmt_tests_passed (JObj i) (JObj m) [] = Inr []"
    "stmt_artifact_signed (JObj i) (JObj m) [] = Inr []"
    "stmt_release_controlled (JObj i) (JObj m) [] = Inr []"
    "stmt_reviewers L (JObj i) (JObj m) [] = Inr []"
    "stmt_shared_infra (JObj i) (JObj m) [] = Inr []"
    "stmt_change_recorded (JObj i) (JObj m) [] = Inr []"
    "stmt_ticket L (JObj i) (JObj m) [] = Inr []"
    "stmt_deployment_date (JObj i) (JObj m) [] = Inr []"
    "stmt_wait_timer L (JObj i) (JObj m) [] = Inr []"
    "stmt_signed_off (JObj i) (JObj m) [] = Inr []"
    "stmt_emergency (JObj i) (JObj m) [] = Inr []"
    "stmt_components (JObj i) (JObj m) [] = Inr []"
    "stmt_rollback (JObj i) (JObj m) [] = Inr []"
    "stmt_guardrail L (JObj i) (JObj m) [] = Inr []"
    using a by (simp_all add: stmt_defs del: py_get.simps) (simp_all add: py_greater_def)
  show ?thesis
    by (simp add: check_rules_def s)
qed

theorem absent_parameters_no_violations_witness:
  "check_rules literal_lib example_input (JObj (fmap_of_list [(''owner'', JStr ''ops'')]))
     = Inr []"
proof -
  have a: "\<forall>k \<in> set recognized_parameters.
      fmlookup (fmap_of_list [(''owner'', JStr ''ops'')]) k = None"
    by (simp add: recognized_parameters_def fmlookup_of_list)
  show ?thesis
    using absent_parameters_no_violations [OF a, of literal_lib]
    by (simp add: example_input_def)
qed

section \<open>The two paths of the validator\<close>

lemma environments_of_lookup:
  assumes "environments_of data = Inr (JObj envs)" and "fmlookup envs name = Some entry"
  shows "\<exists>d p. data = JObj d \<and> fmlookup d ''policy'' = Some (JObj p)
           \<and> fmlookup p ''environments'' = Some (JObj envs)"
proof -
  from assms(1) obtain d where d: "data = JObj d"
    by (cases data) (simp_all add: environments_of_def)
  show ?thesis
  proof (cases "fmlookup d ''policy''")
    case None
    with assms d show ?thesis by (auto simp: environments_of_def)
  next
    case (Some v)
    with assms(1) d obtain p where p: "v = JObj p"
      by (cases v) (simp_all add: environments_of_def)
    show ?thesis
    proof (cases "fmlookup p ''environments''")
      case None
      with assms d Some p show ?thesis by (auto simp: environments_of_def)
    next
      case (Some w)
      with assms(1) d \<open>fmlookup d ''policy'' = Some v\<close> p show ?thesis
        by (simp add: environments_of_def)
    qed
  qed
qed

lemma validate_input_with_resolved:
  assumes "environments_of data = Inr (JObj envs)"
    and "py_get input_data ''env'' (JStr []) = Inr (JStr name)"
    and "fmlookup envs name = Some (JObj e)"
    and "fmlookup e ''rules'' = Some rules"
    and "check input_data rules = Inr vs"
  shows "validate_input_with check L data input_data =
           \<lparr>allowed = (vs = []), violations = vs, input = input_data,
            timestamp = Some ''2025-01-18T16:00:00Z'', error = None\<rparr>"
proof -
  from environments_of_lookup [OF assms(1,3)] obtain d p where
    d: "data = JObj d" "fmlookup d ''policy'' = Some (JObj p)"
       "fmlookup p ''environments'' = Some (JObj envs)"
    by blast
  show ?thesis
    unfolding validate_input_with_def validate_body_with_def Let_def assms(1,2) py_bind_simps
    using assms(3,4,5) d by simp
qed

lemma validate_input_with_unknown:
  assumes "environments_of data = Inr (JObj envs)"
    and "py_get input_data ''env'' (JStr []) = Inr (JStr name)"
    and "fmlookup envs name = None"
  shows "validate_input_with check L data input_data =
           \<lparr>allowed = False, violations = [''Unknown environment: '' @ name],
            input = input_data, timestamp = Some ''2025-01-18T16:00:00Z'', error = None\<rparr>"
  unfolding validate_input_with_def validate_body_with_def Let_def assms(1,2) py_bind_simps
  using assms(3) by simp

lemma example_environments_of:
  "environments_of example_policy = Inr (JObj example_environments)"
  by (simp add: environments_of_def example_policy_def fmlookup_of_list)

text \<open>
  Claim C2. When the input event names an environment that is not a key of the
  environments mapping of the policy document (the keys are compared as strings, and
  nothing else is tried), the result is denied with the single violation
  \<^verbatim>\<open>Unknown environment:\<close> followed by the name. The rule checks are not run: the result
  is the same whatever function stands for \<^verbatim>\<open>_check_rules\<close>, even one that raises.
\<close>

theorem unknown_environment_denied:
  assumes "field input_data ''env'' = Some (JStr name)"
    and "environments_of data = Inr (JObj envs)"
    and "fmlookup envs name = None"
  shows "validate_input L data input_data =
           \<lparr>allowed = False, violations = [''Unknown environment: '' @ name],
            input = input_data, timestamp = Some ''2025-01-18T16:00:00Z'', error = None\<rparr>
         \<and> validate_input_with check L data input_data = validate_input L data input_data"
proof -
  from assms(1) have e: "py_get input_data ''env'' (JStr []) = Inr (JStr name)"
    by (cases input_data) (simp_all add: field_def)
  show ?thesis
    unfolding validate_input_def
    by (simp add: validate_input_with_unknown [OF assms(2) e assms(3)])
qed

theorem unknown_environment_denied_witness:
  "field staging_input ''env'' = Some (JStr ''staging'')
   \<and> environments_of example_policy = Inr (JObj example_environments)
   \<and> fmlookup example_environments ''staging'' = None
   \<and> validate_input literal_lib example_policy staging_input =
        \<lparr>allowed = False, violations = [''Unknown environment: staging''],
         input = staging_input, timestamp = Some ''2025-01-18T16:00:00Z'', error = None\<rparr>
   \<and> validate_input_with (\<lambda>i r. Inl TypeError) literal_lib example_policy staging_input
        = validate_input literal_lib example_policy staging_input"
proof -
  have a: "field staging_input ''env'' = Some (JStr ''staging'')"
    by (simp add: field_def staging_input_def fmlookup_of_list)
  have b: "fmlookup example_environments ''staging'' = None"
    by (simp add: example_environments_def fmlookup_of_list)
  show ?thesis
    using unknown_environment_denied [OF a example_environments_of b,
        of literal_lib "\<lambda>i r. Inl TypeError"] a b example_environments_of
    by simp
qed

text \<open>
  Claim C10. An input event without the field \<^verbatim>\<open>env\<close> is handled with the empty string
  as the name of its environment: unless the empty string is a key of the environments
  mapping, the result is denied with the single violation \<^verbatim>\<open>Unknown environment:\<close>
  followed by an empty name, and the rule checks are not run.
\<close>

theorem missing_env_is_empty_name:
  assumes "fmlookup i ''env'' = None"
    and "environments_of data = Inr (JObj envs)"
    and "fmlookup envs [] = None"
  shows "validate_input L data (JObj i) =
           \<lparr>allowed = False, violations = [''Unknown environment: ''],
            input = JObj i, timestamp = Some ''2025-01-18T16:00:00Z'', error = None\<rparr>
         \<and> validate_input_with check L data (JObj i) = validate_input L data (JObj i)"
proof -
  from assms(1) have e: "py_get (JObj i) ''env'' (JStr []) = Inr (JStr [])"
    by simp
  show ?thesis
    unfolding validate_input_def
    by (simp add: validate_input_with_unknown [OF assms(2) e assms(3)])
qed

theorem missing_env_is_empty_name_witness:
  "fmlookup unnamed_input ''env'' = None
   \<and> environments_of example_policy = Inr (JObj example_environments)
   \<and> fmlookup example_environments [] = None
   \<and> validate_input literal_lib example_policy (JObj unnamed_input) =
        \<lparr>allowed = False, violations = [''Unknown environment: ''],
         input = JObj unnamed_input, timestamp = Some ''2025-01-18T16:00:00Z'',
         error = None\<rparr>
   \<and> validate_input_with (\<lambda>i r. Inl TypeError) literal_lib example_policy (JObj unnamed_input)
        = validate_input literal_lib example_policy (JObj unnamed_input)"
proof -
  have a: "fmlookup unnamed_input ''env'' = None"
    by (simp add: unnamed_input_def fmlookup_of_list)
  have b: "fmlookup example_environments [] = None"
    by (simp add: example_environments_def fmlookup_of_list)
  show ?thesis
    using missing_env_is_empty_name [OF a example_environments_of b,
        of literal_lib "\<lambda>i r. Inl TypeError"] a b example_environments_of
    by simp
qed

section \<open>A ticket pattern whose compilation raises another exception\<close>

text \<open>
  \<^verbatim>\<open>_valid_ticket\<close> catches \<^verbatim>\<open>re.error\<close> and nothing else. When the compilation of the
  pattern raises another exception, the exception leaves \<^verbatim>\<open>_valid_ticket\<close> and
  \<^verbatim>\<open>_check_rules\<close>: the violations appended so far are lost and the checks after the
  ticket check are not run. This one defect is behind every statement of this section.
  The documents \<open>overflow_rules\<close> and \<open>overflow_input\<close> are typed as the data model says.
\<close>

lemma overflow_wt: "wt_rules overflow_rules" "wt_input overflow_input"
  by (simp_all add: overflow_rules_def overflow_input_def wt_keys fmlookup_of_list)

lemma overflow_stmt_ticket:
  assumes "re_compile L overflow_pattern = ReRaises e"
  shows "stmt_ticket L overflow_input overflow_rules vs = Inl e"
proof -
  have p: "overflow_pattern \<noteq> []"
    by (simp add: overflow_pattern_def)
  have "valid_ticket L (JStr ''x'') (JStr overflow_pattern) = Inl e"
    by (rule valid_ticket_raises [OF _ p assms]) simp
  then show ?thesis
    by (simp add: stmt_ticket_def overflow_rules_def overflow_input_def fmlookup_of_list)
qed

lemma overflow_check_rules:
  assumes "re_compile L overflow_pattern = ReRaises e"
  shows "check_rules L overflow_input overflow_rules = Inl e"
proof -
  have s: "stmt_tests_passed overflow_input overflow_rules [] = Inr []"
    "stmt_artifact_signed overflow_input overflow_rules [] = Inr []"
    "stmt_release_controlled overflow_input overflow_rules [] = Inr []"
    "stmt_reviewers L overflow_input overflow_rules [] = Inr []"
    "stmt_shared_infra overflow_input overflow_rules []
       = Inr [''Rule#2: production cannot run on shared infra (except core)'']"
    by (simp_all add: stmt_tests_passed_def stmt_artifact_signed_def
          stmt_release_controlled_def stmt_reviewers_def stmt_shared_infra_def
          overflow_rules_def overflow_input_def fmlookup_of_list truthy_def falsy_def
          equals_def py_eq_def py_and_def append_if_def)
  have c: "stmt_change_recorded overflow_input overflow_rules vs = Inr vs" for vs
    by (simp add: stmt_change_recorded_def overflow_rules_def overflow_input_def
          fmlookup_of_list truthy_def falsy_def py_and_def append_if_def)
  show ?thesis
    by (simp add: check_rules_def s c overflow_stmt_ticket [OF assms])
qed

lemma overflow_evaluate:
  assumes "re_compile L overflow_pattern = ReRaises e"
  shows "evaluate L overflow_rules overflow_input =
           [''Rule#2: production cannot run on shared infra (except core)'',
            ''Rule#3: ticket id invalid/missing (pattern a{4294967296})'',
            ''Rule#5: emergency path requires retrospective_signoff enabled'',
            ''Max deployments per day exceeded (4 > 3)'']"
proof -
  have p: "overflow_pattern \<noteq> []"
    by (simp add: overflow_pattern_def)
  have t: "\<not> spec_valid_ticket L ''x'' overflow_pattern"
    using assms p by (simp add: spec_valid_ticket_def)
  have n: "show_int 4 = ''4''" "show_int 3 = ''3''"
    by (simp_all add: show_int_def)
  have f: "text_field overflow_rules ''ticket_pattern'' = overflow_pattern"
    "text_field overflow_input ''ticket_id'' = ''x''"
    "number overflow_rules ''max_deployments_per_day'' = 3"
    "number overflow_input ''deployments_today'' = 4"
    "number overflow_rules ''wait_timer_seconds'' = 0"
    "number overflow_rules ''min_reviewers'' = 0"
    by (simp_all add: text_field_def number_def field_def overflow_rules_def
          overflow_input_def fmlookup_of_list)
  have g: "flag overflow_rules k = (k = ''require_ticket'')"
    "explicitly_false overflow_rules k
       = (k = ''shared_infra_except_core'' \<or> k = ''retrospective_signoff'')"
    "flag overflow_input k = (k = ''shared_infra'' \<or> k = ''is_emergency'')" for k
    by (auto simp: flag_def explicitly_false_def field_def overflow_rules_def
          overflow_input_def fmlookup_of_list)
  show ?thesis
    by (simp add: evaluate_def spec_checks_def f g t n) (simp add: overflow_pattern_def)
qed

lemma overflow_environments_of:
  "environments_of overflow_policy = Inr (JObj overflow_environments)"
  by (simp add: environments_of_def overflow_policy_def fmlookup_of_list)

lemma validate_input_with_raised:
  assumes "environments_of data = Inr (JObj envs)"
    and "py_get input_data ''env'' (JStr []) = Inr (JStr name)"
    and "fmlookup envs name = Some (JObj e)"
    and "fmlookup e ''rules'' = Some rules"
    and "check input_data rules = Inl err"
  shows "validate_input_with check L data input_data =
           \<lparr>allowed = False, violations = [''Validation error: '' @ exc_str L err],
            input = input_data, timestamp = None, error = Some True\<rparr>"
proof -
  from environments_of_lookup [OF assms(1,3)] obtain d p where
    d: "data = JObj d" "fmlookup d ''policy'' = Some (JObj p)"
       "fmlookup p ''environments'' = Some (JObj envs)"
    by blast
  show ?thesis
    unfolding validate_input_with_def validate_body_with_def Let_def assms(1,2) py_bind_simps
    using assms(3,4,5) d by simp
qed

lemma overflow_validate_input:
  assumes "re_compile L overflow_pattern = ReRaises e"
  shows "validate_input L overflow_policy overflow_input =
           \<lparr>allowed = False, violations = [''Validation error: '' @ exc_str L e],
            input = overflow_input, timestamp = None, error = Some True\<rparr>"
  unfolding validate_input_def
  by (rule validate_input_with_raised
        [where check = "check_rules L" and name = "''prod''" and rules = overflow_rules
           and e = "fmap_of_list [(''rules'', overflow_rules)]",
         OF overflow_environments_of _ _ _ overflow_check_rules [OF assms]])
     (simp_all add: overflow_input_def overflow_environments_def fmlookup_of_list)

lemma literal_lib_overflow: "re_compile literal_lib overflow_pattern = ReRaises OverflowError"
  by (simp add: literal_lib_def overflow_pattern_def)

text \<open>
  Claim C4. The ticket check should answer false, and raise nothing, when the pattern
  fails to compile. For a non-empty id and a non-empty pattern whose compilation raises an
  exception other than \<^verbatim>\<open>re.error\<close>, the source raises that exception instead of
  answering false.
\<close>

theorem valid_ticket_propagates:
  assumes "s \<noteq> []" and "p \<noteq> []" and "re_compile L p = ReRaises e"
  shows "valid_ticket L (JStr s) (JStr p) = Inl e
         \<and> valid_ticket L (JStr s) (JStr p) \<noteq> Inr False"
  by (simp add: valid_ticket_raises [OF assms])

theorem valid_ticket_propagates_witness:
  "''x'' \<noteq> [] \<and> overflow_pattern \<noteq> []
   \<and> re_compile literal_lib overflow_pattern = ReRaises OverflowError
   \<and> valid_ticket literal_lib (JStr ''x'') (JStr overflow_pattern) = Inl OverflowError"
proof -
  have a: "''x'' \<noteq> []" "overflow_pattern \<noteq> []"
    by (simp_all add: overflow_pattern_def)
  show ?thesis
    using valid_ticket_propagates [OF a literal_lib_overflow] a literal_lib_overflow
    by simp
qed

text \<open>
  Claim C9. On typed documents the evaluation should raise nothing, a malformed ticket
  pattern included. On the typed documents \<open>overflow_rules\<close> and \<open>overflow_input\<close> the
  rule checks raise the exception of the pattern compiler, and \<open>validate_input\<close> returns
  the record of its exception handler, with the \<^verbatim>\<open>error\<close> key and the single message
  \<^verbatim>\<open>Validation error:\<close> followed by the text of the exception.
\<close>

theorem evaluation_raises:
  assumes "re_compile L overflow_pattern = ReRaises e"
  shows "wt_rules overflow_rules \<and> wt_input overflow_input
         \<and> check_rules L overflow_input overflow_rules = Inl e
         \<and> validate_input L overflow_policy overflow_input =
             \<lparr>allowed = False, violations = [''Validation error: '' @ exc_str L e],
              input = overflow_input, timestamp = None, error = Some True\<rparr>"
  by (simp add: overflow_wt overflow_check_rules [OF assms] overflow_validate_input [OF assms])

theorem evaluation_raises_witness:
  "re_compile literal_lib overflow_pattern = ReRaises OverflowError
   \<and> check_rules literal_lib overflow_input overflow_rules = Inl OverflowError
   \<and> validate_input literal_lib overflow_policy overflow_input =
       \<lparr>allowed = False,
        violations = [''Validation error: the repetition number is too large''],
        input = overflow_input, timestamp = None, error = Some True\<rparr>"
proof -
  have m: "exc_str literal_lib OverflowError = ''the repetition number is too large''"
    by (simp add: literal_lib_def)
  show ?thesis
    using evaluation_raises [OF literal_lib_overflow] literal_lib_overflow m
    by simp
qed

text \<open>
  Claim C3. The list returned should hold the messages of all the triggered checks, in
  order, each check being evaluated whatever the earlier ones did. On the typed documents
  \<open>overflow_rules\<close> and \<open>overflow_input\<close> four checks of the specification are
  triggered (5, 7, 11 and 14), but the source returns no list: it raises at the ticket
  check, after check 5 and before checks 8 to 14.
\<close>

theorem check_rules_stops_at_ticket:
  assumes "re_compile L overflow_pattern = ReRaises e"
  shows "wt_rules overflow_rules \<and> wt_input overflow_input
         \<and> evaluate L overflow_rules overflow_input =
             [''Rule#2: production cannot run on shared infra (except core)'',
              ''Rule#3: ticket id invalid/missing (pattern a{4294967296})'',
              ''Rule#5: emergency path requires retrospective_signoff enabled'',
              ''Max deployments per day exceeded (4 > 3)'']
         \<and> check_rules L overflow_input overflow_rules = Inl e
         \<and> check_rules L overflow_input overflow_rules
             \<noteq> Inr (evaluate L overflow_rules overflow_input)"
  by (simp add: overflow_wt overflow_evaluate [OF assms] overflow_check_rules [OF assms])

theorem check_rules_stops_at_ticket_witness:
  "re_compile literal_lib overflow_pattern = ReRaises OverflowError
   \<and> evaluate literal_lib overflow_rules overflow_input =
       [''Rule#2: production cannot run on shared infra (except core)'',
        ''Rule#3: ticket id invalid/missing (pattern a{4294967296})'',
        ''Rule#5: emergency path requires retrospective_signoff enabled'',
        ''Max deployments per day exceeded (4 > 3)'']
   \<and> check_rules literal_lib overflow_input overflow_rules = Inl OverflowError"
  using check_rules_stops_at_ticket [OF literal_lib_overflow] literal_lib_overflow
  by simp

text \<open>
  Claim C5. For an emergency input, the message of the emergency path should be produced
  exactly when \<^verbatim>\<open>retrospective_signoff\<close> is present and false. On the typed documents
  \<open>overflow_rules\<close> and \<open>overflow_input\<close> the input is an emergency and the parameter
  is false, yet the message is not produced: the source raises before that check.
\<close>

theorem emergency_message_lost:
  assumes "re_compile L overflow_pattern = ReRaises e"
  shows "wt_rules overflow_rules \<and> wt_input overflow_input
         \<and> flag overflow_input ''is_emergency''
         \<and> explicitly_false overflow_rules ''retrospective_signoff''
         \<and> \<not> produced ''Rule#5: emergency path requires retrospective_signoff enabled''
               (check_rules L overflow_input overflow_rules)"
proof -
  have f: "flag overflow_input ''is_emergency''"
    "explicitly_false overflow_rules ''retrospective_signoff''"
    by (simp_all add: flag_def explicitly_false_def field_def overflow_rules_def
          overflow_input_def fmlookup_of_list)
  show ?thesis
    by (simp add: overflow_wt overflow_check_rules [OF assms] produced_def f)
qed

theorem emergency_message_lost_witness:
  "re_compile literal_lib overflow_pattern = ReRaises OverflowError
   \<and> flag overflow_input ''is_emergency''
   \<and> explicitly_false overflow_rules ''retrospective_signoff''
   \<and> \<not> produced ''Rule#5: emergency path requires retrospective_signoff enabled''
         (check_rules literal_lib overflow_input overflow_rules)"
  using emergency_message_lost [OF literal_lib_overflow] literal_lib_overflow
  by simp

text \<open>
  Claim C6. The shared-infra message should be produced exactly when
  \<^verbatim>\<open>shared_infra_except_core\<close> is present and false and the input's \<^verbatim>\<open>shared_infra\<close> is
  true. On the typed documents \<open>overflow_rules\<close> and \<open>overflow_input\<close> both hold, yet
  the message is not produced: the source appends it and then raises at the ticket check.
\<close>

theorem shared_infra_message_lost:
  assumes "re_compile L overflow_pattern = ReRaises e"
  shows "wt_rules overflow_rules \<and> wt_input overflow_input
         \<and> field overflow_rules ''shared_infra_except_core'' = Some (JBool False)
         \<and> field overflow_input ''shared_infra'' = Some (JBool True)
         \<and> \<not> produced ''Rule#2: production cannot run on shared infra (except core)''
               (check_rules L overflow_input overflow_rules)"
proof -
  have f: "field overflow_rules ''shared_infra_except_core'' = Some (JBool False)"
    "field overflow_input ''shared_infra'' = Some (JBool True)"
    by (simp_all add: field_def overflow_rules_def overflow_input_def fmlookup_of_list)
  show ?thesis
    by (simp add: overflow_wt overflow_check_rules [OF assms] produced_def f)
qed

theorem shared_infra_message_lost_witness:
  "re_compile literal_lib overflow_pattern = ReRaises OverflowError
   \<and> field overflow_rules ''shared_infra_except_core'' = Some (JBool False)
   \<and> field overflow_input ''shared_infra'' = Some (JBool True)
   \<and> \<not> produced ''Rule#2: production cannot run on shared infra (except core)''
         (check_rules literal_lib overflow_input overflow_rules)"
  using shared_infra_message_lost [OF literal_lib_overflow] literal_lib_overflow
  by simp

text \<open>
  Claim C7. The guardrail message should be produced exactly when the limit is positive
  and \<^verbatim>\<open>deployments_today\<close> exceeds it. On the typed documents \<open>overflow_rules\<close> and
  \<open>overflow_input\<close> the limit is 3 and the input has 4 deployments, yet the message is
  not produced: the source raises before the guardrail.
\<close>

theorem guardrail_message_lost:
  assumes "re_compile L overflow_pattern = ReRaises e"
  shows "wt_rules overflow_rules \<and> wt_input overflow_input
         \<and> number overflow_rules ''max_deployments_per_day'' = 3
         \<and> number overflow_input ''deployments_today'' = 4
         \<and> \<not> produced ''Max deployments per day exceeded (4 > 3)''
               (check_rules L overflow_input overflow_rules)"
proof -
  have f: "number overflow_rules ''max_deployments_per_day'' = 3"
    "number overflow_input ''deployments_today'' = 4"
    by (simp_all add: number_def field_def overflow_rules_def overflow_input_def
          fmlookup_of_list)
  show ?thesis
    by (simp add: overflow_wt overflow_check_rules [OF assms] produced_def f)
qed

theorem guardrail_message_lost_witness:
  "re_compile literal_lib overflow_pattern = ReRaises OverflowError
   \<and> number overflow_rules ''max_deployments_per_day'' = 3
   \<and> number overflow_input ''deployments_today'' = 4
   \<and> \<not> produced ''Max deployments per day exceeded (4 > 3)''
         (check_rules literal_lib overflow_input overflow_rules)"
  using guardrail_message_lost [OF literal_lib_overflow] literal_lib_overflow
  by simp

section \<open>Examples\<close>

text \<open>
  A pattern that raises \<^verbatim>\<open>re.error\<close> is absorbed, a match is looked for at position 0
  only and need not reach the end of the id, and a rule set with a sound pattern gives
  the violations in the order of the checks.
\<close>

lemma malformed_pattern_absorbed:
  "check_rules literal_lib dev_input malformed_rules
     = Inr [''Rule#3: ticket id invalid/missing (pattern ()'']"
  by code_simp

lemma example_check_rules:
  "check_rules literal_lib example_input example_rules =
     Inr [''Rule#1: at least 2 approvers required (got 1)'',
          ''Rule#2: production cannot run on shared infra (except core)'',
          ''Rule#3: ticket id invalid/missing (pattern JIRA-)'',
          ''Rule#5: emergency path requires retrospective_signoff enabled'',
          ''Max deployments per day exceeded (4 > 3)'']"
  by code_simp

lemma valid_ticket_examples:
  "valid_ticket literal_lib (JStr ''JIRA-123'') (JStr ''JIRA-'') = Inr True"
  "valid_ticket literal_lib (JStr ''X-JIRA-1'') (JStr ''JIRA-'') = Inr False"
  "valid_ticket literal_lib (JStr ''JIRA-1'') (JStr ''('') = Inr False"
  by (simp_all add: valid_ticket_def literal_lib_def overflow_pattern_def)

end
